theory Spec2Isabelle
  imports Main
begin

section \<open>JavaScript values\<close>

text \<open>
  The client moves JSON payloads around without looking inside them; what it does look at
  is whether a value is truthy. Numbers in a payload are the integers, as ids are.
  \<open>JUndefined\<close> is also the value of a property the object does not have.
\<close>

datatype jsval =
    JUndefined
  | JNull
  | JBool bool
  | JNum int
  | JStr string
  | JArr "jsval list"
  | JObj "(string \<times> jsval) list"

fun truthy :: "jsval \<Rightarrow> bool" where
  "truthy JUndefined = False"
| "truthy JNull = False"
| "truthy (JBool b) = b"
| "truthy (JNum n) = (n \<noteq> 0)"
| "truthy (JStr s) = (s \<noteq> [])"
| "truthy (JArr xs) = True"
| "truthy (JObj kvs) = True"

text \<open>
  The fields of a message that the interfaces declare as a number
  (\<open>id: number | null\<close>) or as a string (\<open>method: string\<close>) are options. For
  \<open>id\<close>, \<open>None\<close> is \<open>null\<close> or a missing property; for \<open>method\<close> it is a
  missing property. \<open>!obj.id\<close> and \<open>if (obj.method)\<close> test truthiness: the number 0
  and the empty string are falsy.
\<close>

definition truthy_num :: "int option \<Rightarrow> bool" where
  "truthy_num n = (case n of None \<Rightarrow> False | Some k \<Rightarrow> k \<noteq> 0)"

definition truthy_str :: "string option \<Rightarrow> bool" where
  "truthy_str s = (case s of None \<Rightarrow> False | Some t \<Rightarrow> t \<noteq> [])"

text \<open>A missing method used as a property key is the key \<open>undefined\<close>.\<close>

definition property_key :: "string option \<Rightarrow> string" where
  "property_key s = (case s of None \<Rightarrow> ''undefined'' | Some t \<Rightarrow> t)"

section \<open>Message envelopes\<close>

datatype StandardErrorCode =
  ParseError | InvalidRequest | MethodNotFound | InvalidParams | InternalError

fun code_of :: "StandardErrorCode \<Rightarrow> int" where
  "code_of ParseError = - 32700"
| "code_of InvalidRequest = - 32600"
| "code_of MethodNotFound = - 32601"
| "code_of InvalidParams = - 32602"
| "code_of InternalError = - 32603"

text \<open>
  One record for the three wire shapes: \<open>INotification\<close> has method and params,
  \<open>IRequest\<close> adds id, \<open>IResult\<close> has id and result or error. The source's field
  \<open>id\<close> is \<open>id'\<close> here.
\<close>

record envelope =
  jsonrpc :: jsval
  "method" :: "string option"
  id' :: "int option"
  params :: jsval
  result :: jsval
  error :: jsval

text \<open>The object literals \<open><RpcError>{code, message}\<close> and \<open>{code, message, data}\<close>.\<close>

definition RpcError :: "StandardErrorCode \<Rightarrow> string \<Rightarrow> jsval" where
  "RpcError c m = JObj [(''code'', JNum (code_of c)), (''message'', JStr m)]"

definition RpcErrorData :: "StandardErrorCode \<Rightarrow> string \<Rightarrow> jsval \<Rightarrow> jsval" where
  "RpcErrorData c m d =
     JObj [(''code'', JNum (code_of c)), (''message'', JStr m), (''data'', d)]"

definition createNotification :: "string \<Rightarrow> jsval \<Rightarrow> envelope" where
  "createNotification m p =
     \<lparr>jsonrpc = JStr ''2.0'', method = Some m, id' = None, params = p,
      result = JUndefined, error = JUndefined\<rparr>"

definition createResult :: "int option \<Rightarrow> jsval \<Rightarrow> jsval \<Rightarrow> envelope" where
  "createResult i r e =
     (if truthy e
      then \<lparr>jsonrpc = JStr ''2.0'', method = None, id' = i, params = JUndefined,
            result = JUndefined, error = e\<rparr>
      else \<lparr>jsonrpc = JStr ''2.0'', method = None, id' = i, params = JUndefined,
            result = r, error = JUndefined\<rparr>)"

definition genericResult :: "int option \<Rightarrow> jsval \<Rightarrow> jsval \<Rightarrow> envelope" where
  "genericResult = createResult"

section \<open>Errors thrown by the client\<close>

text \<open>
  Each \<open>throw new Error(...)\<close> of the source is a constructor; where the message text
  is built with \<open>JSON.stringify\<close>, the constructor carries the value instead of the text.
  \<open>TypeError\<close> is the runtime's own error.
\<close>

datatype thrown =
    AlreadyConnected
  | SecondRequestHandler string
  | SecondNotificationHandler string
  | MissingIdInRequest envelope
  | MissingIdInResult envelope
  | SendOnDisconnected
  | UnexpectedJsonrpc jsval
  | TypeError
  | HandlerThrew string string

section \<open>The comparison with the protocol version\<close>

text \<open>
  \<open>obj.jsonrpc != "2.0"\<close> is the loose comparison. A string is compared as it is, a
  number with the number 2, \<open>null\<close>, \<open>undefined\<close> and booleans differ. An array or
  an object is converted to a string first: an array joins its elements, an object gives
  \<open>[object Object]\<close>, and the conversion throws when an object has a property
  \<open>toString\<close> of its own (a JSON value is not callable).
\<close>

fun conversion_throws :: "jsval \<Rightarrow> bool" where
  "conversion_throws (JObj kvs) = (''toString'' \<in> fst ` set kvs)"
| "conversion_throws (JArr xs) = list_ex conversion_throws xs"
| "conversion_throws v = False"

fun reads_as_version :: "jsval \<Rightarrow> bool" where
  "reads_as_version (JStr s) = (s = ''2.0'')"
| "reads_as_version (JArr [x]) = reads_as_version x"
| "reads_as_version v = False"

definition differs_from_version :: "jsval \<Rightarrow> thrown + bool" where
  "differs_from_version v =
     (case v of
        JStr s \<Rightarrow> Inr (s \<noteq> ''2.0'')
      | JNum n \<Rightarrow> Inr (n \<noteq> 2)
      | JArr xs \<Rightarrow> if conversion_throws v then Inl TypeError else Inr (\<not> reads_as_version v)
      | JObj kvs \<Rightarrow> if conversion_throws v then Inl TypeError else Inr True
      | _ \<Rightarrow> Inr True)"

section \<open>The client and the objects it holds\<close>

text \<open>
  A request handler or a notification handler is called with the parsed message. It throws
  an error (message and stack), returns a value, or returns a promise that is later
  fulfilled or rejected. What else a handler does is outside the client.
\<close>

datatype retval = Plain jsval | WillFulfil jsval | WillReject string string

datatype invocation = Threw string string | Gave retval

type_synonym IRequestHandler = "envelope \<Rightarrow> invocation"
type_synonym INotificationHandler = "envelope \<Rightarrow> invocation"
type_synonym IErrorHandler = "jsval \<Rightarrow> unit"

datatype promise = Pending | Fulfilled jsval | Rejected jsval

text \<open>
  A \<open>net.Socket\<close>: what has been written to it, whether \<open>end()\<close> was called, and the
  promise that its connect listener resolves.
\<close>

record net_socket =
  address :: string
  written :: "envelope list"
  ended :: bool
  opener :: nat

datatype warning =
    SocketError string
  | SocketClosed
  | NoNotificationHandler envelope
  | DroppedResult jsval
  | DroppedError jsval

text \<open>
  The fields of \<open>Client\<close>, followed by the objects the client creates and refers to:
  the sockets and promises (a field holds the index of the object), the lines of
  \<open>console.warn\<close>, and the \<open>then\<close>/\<open>catch\<close> reactions attached to what a request
  handler returned.

  The three tables are plain objects used as dictionaries; a field is the map of the
  table's own properties. \<open>resultPromises\<close> is read at numbers, where a plain object
  has its own properties only. The two registries are read at method names, where a
  plain object also has what it inherits (\<open>toString\<close>, \<open>constructor\<close> and the
  like): they are read with \<open>lookup_handler\<close> below. A handler is a function, hence
  truthy.
\<close>

record Client =
  socket :: "nat option"
  resultPromises :: "int \<rightharpoonup> nat"
  requestHandlers :: "string \<rightharpoonup> IRequestHandler"
  notificationHandlers :: "string \<rightharpoonup> INotificationHandler"
  errorHandler :: "IErrorHandler option"
  idSeed :: int
  sockets :: "net_socket list"
  promises :: "promise list"
  console :: "warning list"
  reactions :: "(int option \<times> retval) list"

definition new_Client :: Client where
  "new_Client =
     \<lparr>socket = None, resultPromises = Map.empty, requestHandlers = Map.empty,
      notificationHandlers = Map.empty, errorHandler = None, idSeed = 1,
      sockets = [], promises = [], console = [], reactions = []\<rparr>"

text \<open>Calling \<open>resolve\<close> or \<open>reject\<close> of a promise that is already settled does nothing.\<close>

definition settle :: "nat \<Rightarrow> promise \<Rightarrow> promise list \<Rightarrow> promise list" where
  "settle p v ps = (if p < length ps \<and> ps ! p = Pending then ps[p := v] else ps)"

definition update_at :: "nat \<Rightarrow> ('a \<Rightarrow> 'a) \<Rightarrow> 'a list \<Rightarrow> 'a list" where
  "update_at i f xs = (if i < length xs then xs[i := f (xs ! i)] else xs)"

definition warn :: "warning \<Rightarrow> Client \<Rightarrow> Client" where
  "warn w c = c\<lparr>console := console c @ [w]\<rparr>"

section \<open>Ids and creators\<close>

text \<open>
  The seed is a JavaScript number, a double, and holds an integer. \<open>n + 1\<close> is the
  double nearest to the sum, ties going to the even significand. From \<open>- 2 ^ 53\<close> to
  \<open>2 ^ 53 - 1\<close> the sum is a double itself. From there to \<open>2 ^ 54\<close> in size the doubles
  are the even integers, the sum lies halfway between \<open>n\<close> and \<open>n + 2\<close>, and the
  result is the one whose half is even: at \<open>2 ^ 53\<close> it is \<open>2 ^ 53\<close> again. Beyond,
  the doubles are 4 or more apart and the result is \<open>n\<close>.
\<close>

definition increment :: "int \<Rightarrow> int" where
  "increment n =
     (if - (2 ^ 53) \<le> n \<and> n < 2 ^ 53 then n + 1
      else if \<bar>n\<bar> < 2 ^ 54 then (if even (n div 2) then n else n + 2)
      else n)"

text \<open>
  \<open>return this.idSeed++\<close>. \<open>createNotification\<close> and \<open>createRequest\<close> are called
  with the method alone; their second parameter has a default and is not used.
\<close>

definition generateID :: "Client \<Rightarrow> int \<times> Client" where
  "generateID c = (idSeed c, c\<lparr>idSeed := increment (idSeed c)\<rparr>)"

type_synonym IRequestCreator = "jsval \<Rightarrow> Client \<Rightarrow> envelope \<times> Client"
type_synonym INotificationCreator = "jsval \<Rightarrow> envelope"

definition createRequest :: "string \<Rightarrow> IRequestCreator" where
  "createRequest m p c =
     (case generateID c of
        (i, c1) \<Rightarrow>
          (\<lparr>jsonrpc = JStr ''2.0'', method = Some m, id' = Some i, params = p,
            result = JUndefined, error = JUndefined\<rparr>, c1))"

text \<open>The ids of \<open>n\<close> successive calls of \<open>generateID\<close>.\<close>

fun generateIDs :: "nat \<Rightarrow> Client \<Rightarrow> int list" where
  "generateIDs 0 c = []"
| "generateIDs (Suc n) c = (case generateID c of (i, c1) \<Rightarrow> i # generateIDs n c1)"

section \<open>Connection manager\<close>

text \<open>
  \<open>connect\<close> and \<open>call\<close> are \<open>async\<close>: \<open>Inl e\<close> is the rejection of the returned
  promise by an error thrown in the body, \<open>Inr p\<close> is the promise made by
  \<open>new Promise\<close>. The new socket is the last of \<open>sockets\<close>; the three listeners that
  \<open>connect\<close> attaches to it are \<open>on_connect\<close>, \<open>on_error\<close> and \<open>on_close\<close>.
  Splitting the address into host and port is left to \<open>createConnection\<close>. The
  listeners read \<open>this.socket\<close>, not the socket that raised the event.
\<close>

definition connect :: "string \<Rightarrow> Client \<Rightarrow> (thrown + nat) \<times> Client" where
  "connect a c =
     (if socket c \<noteq> None then (Inl AlreadyConnected, c)
      else
        (Inr (length (promises c)),
         c\<lparr>sockets := sockets c @
              [\<lparr>address = a, written = [], ended = False, opener = length (promises c)\<rparr>],
           promises := promises c @ [Pending]\<rparr>))"

definition on_connect :: "nat \<Rightarrow> Client \<Rightarrow> Client" where
  "on_connect s c =
     (if s < length (sockets c)
      then c\<lparr>socket := Some s,
             promises := settle (opener (sockets c ! s)) (Fulfilled JUndefined) (promises c)\<rparr>
      else c)"

definition on_error :: "nat \<Rightarrow> string \<Rightarrow> Client \<Rightarrow> Client" where
  "on_error s m c =
     (if socket c = None then c else (warn (SocketError m) c)\<lparr>socket := None\<rparr>)"

definition on_close :: "nat \<Rightarrow> Client \<Rightarrow> Client" where
  "on_close s c =
     (if socket c = None then c else (warn SocketClosed c)\<lparr>socket := None\<rparr>)"

definition close :: "Client \<Rightarrow> Client" where
  "close c =
     (case socket c of
        None \<Rightarrow> c
      | Some s \<Rightarrow> c\<lparr>socket := None, sockets := update_at s (\<lambda>k. k\<lparr>ended := True\<rparr>) (sockets c)\<rparr>)"

definition onError :: "IErrorHandler \<Rightarrow> Client \<Rightarrow> Client" where
  "onError h c = c\<lparr>errorHandler := Some h\<rparr>"

section \<open>The runtime\<close>

text \<open>
  What \<open>JSON.parse\<close> returns, seen through what the dispatcher reads of it: the
  primitives, \<open>null\<close>, and an object with the properties \<open>jsonrpc\<close>, \<open>method\<close>,
  \<open>id\<close>, \<open>params\<close>, \<open>result\<close> and \<open>error\<close> (an array is an object that has none of
  them).
\<close>

datatype parsed =
    PString string
  | PNumber int
  | PBoolean bool
  | PNull
  | PObject envelope

fun typeof :: "parsed \<Rightarrow> string" where
  "typeof (PString s) = ''string''"
| "typeof (PNumber n) = ''number''"
| "typeof (PBoolean b) = ''boolean''"
| "typeof PNull = ''object''"
| "typeof (PObject e) = ''object''"

text \<open>
  What belongs to the runtime is a parameter. \<open>json_parse\<close> is \<open>JSON.parse\<close> and
  returns \<open>Inl\<close> the message of the SyntaxError it throws; \<open>json_stringify\<close> is
  \<open>JSON.stringify\<close>. \<open>inherited\<close> has the properties that a plain object \<open>{}\<close>
  inherits from \<open>Object.prototype\<close>, each as what it does when the client calls it as a
  handler: all of them are truthy.
\<close>

record platform =
  json_parse :: "string \<Rightarrow> string + parsed"
  json_stringify :: "jsval \<Rightarrow> string"
  inherited :: "string \<rightharpoonup> (envelope \<Rightarrow> invocation)"

text \<open>
  \<open>this.requestHandlers[key]\<close> and \<open>this.notificationHandlers[key]\<close>: the table's own
  property if it has one, else the inherited one.
\<close>

definition lookup_handler ::
  "platform \<Rightarrow> (string \<rightharpoonup> (envelope \<Rightarrow> invocation)) \<Rightarrow> string
     \<Rightarrow> (envelope \<Rightarrow> invocation) option" where
  "lookup_handler pf tbl k = (case tbl k of Some h \<Rightarrow> Some h | None \<Rightarrow> inherited pf k)"

section \<open>Handler registries\<close>

definition onRequest ::
  "platform \<Rightarrow> IRequestCreator \<Rightarrow> IRequestHandler \<Rightarrow> Client
     \<Rightarrow> (thrown + unit) \<times> Client" where
  "onRequest pf rc h c =
     (case rc JNull c of
        (sample, c1) \<Rightarrow>
          (if lookup_handler pf (requestHandlers c1) (property_key (method sample)) \<noteq> None
           then (Inl (SecondRequestHandler (property_key (method sample))), c1)
           else (Inr (),
                 c1\<lparr>requestHandlers :=
                      (requestHandlers c1)(property_key (method sample) \<mapsto> h)\<rparr>)))"

definition onNotification ::
  "platform \<Rightarrow> INotificationCreator \<Rightarrow> INotificationHandler \<Rightarrow> Client
     \<Rightarrow> (thrown + unit) \<times> Client" where
  "onNotification pf nc h c =
     (if lookup_handler pf (notificationHandlers c) (property_key (method (nc JNull))) \<noteq> None
      then (Inl (SecondNotificationHandler (property_key (method (nc JNull)))), c)
      else (Inr (),
            c\<lparr>notificationHandlers :=
                 (notificationHandlers c)(property_key (method (nc JNull)) \<mapsto> h)\<rparr>))"

definition notify :: "INotificationCreator \<Rightarrow> jsval \<Rightarrow> Client \<Rightarrow> Client" where
  "notify nc p c = (let obj = nc p in c)"

section \<open>Sending\<close>

text \<open>
  Every value \<open>sendRaw\<close> is given here is an object, so its test of \<open>typeof obj\<close>
  passes. \<open>socket.write\<close> appends to what the socket has been given.
\<close>

definition sendRaw :: "envelope \<Rightarrow> Client \<Rightarrow> (thrown + unit) \<times> Client" where
  "sendRaw obj c =
     (case socket c of
        None \<Rightarrow> (Inl SendOnDisconnected, c)
      | Some s \<Rightarrow>
          (case differs_from_version (jsonrpc obj) of
             Inl t \<Rightarrow> (Inl t, c)
           | Inr True \<Rightarrow> (Inl (UnexpectedJsonrpc (jsonrpc obj)), c)
           | Inr False \<Rightarrow>
               (Inr (),
                c\<lparr>sockets := update_at s (\<lambda>k. k\<lparr>written := written k @ [obj]\<rparr>) (sockets c)\<rparr>)))"

definition sendResult ::
  "(int option \<Rightarrow> jsval \<Rightarrow> jsval \<Rightarrow> envelope) \<Rightarrow> int option \<Rightarrow> jsval \<Rightarrow> jsval \<Rightarrow> Client
     \<Rightarrow> (thrown + unit) \<times> Client" where
  "sendResult rc i r e c =
     (if \<not> truthy_num (id' (rc i r e)) then (Inl (MissingIdInResult (rc i r e)), c)
      else sendRaw (rc i r e) c)"

text \<open>
  \<open>this.resultPromises[obj.id] = {resolve, reject}\<close>,
  \<open>this.resultPromises[obj.id]\<close> and \<open>delete this.resultPromises[obj.id]\<close>. The
  table has numbers for keys, and all three are reached with a truthy id only.
\<close>

definition store_promise :: "int option \<Rightarrow> nat \<Rightarrow> Client \<Rightarrow> Client" where
  "store_promise i p c =
     (case i of None \<Rightarrow> c | Some k \<Rightarrow> c\<lparr>resultPromises := (resultPromises c)(k \<mapsto> p)\<rparr>)"

definition lookup_promise :: "Client \<Rightarrow> int option \<Rightarrow> nat option" where
  "lookup_promise c i = (case i of None \<Rightarrow> None | Some k \<Rightarrow> resultPromises c k)"

definition delete_promise :: "int option \<Rightarrow> Client \<Rightarrow> Client" where
  "delete_promise i c =
     (case i of None \<Rightarrow> c | Some k \<Rightarrow> c\<lparr>resultPromises := (resultPromises c)(k := None)\<rparr>)"

definition call :: "(Client \<Rightarrow> envelope \<times> Client) \<Rightarrow> Client \<Rightarrow> (thrown + nat) \<times> Client" where
  "call creator c =
     (case creator c of
        (obj, c1) \<Rightarrow>
          if \<not> truthy_num (id' obj) then (Inl (MissingIdInRequest obj), c1)
          else
            (case sendRaw obj c1 of
               (Inl t, c2) \<Rightarrow> (Inl t, c2)
             | (Inr u, c2) \<Rightarrow>
                 (Inr (length (promises c2)),
                  store_promise (id' obj) (length (promises c2))
                    (c2\<lparr>promises := promises c2 @ [Pending]\<rparr>))))"

section \<open>Dispatcher\<close>

text \<open>The block under \<open>if (!obj.id)\<close>; an error thrown by the handler is not caught.\<close>

definition notification_branch ::
  "platform \<Rightarrow> envelope \<Rightarrow> Client \<Rightarrow> (thrown + unit) \<times> Client" where
  "notification_branch pf e c =
     (case lookup_handler pf (notificationHandlers c) (property_key (method e)) of
        None \<Rightarrow> (Inr (), warn (NoNotificationHandler e) c)
      | Some h \<Rightarrow>
          (case h e of
             Threw m s \<Rightarrow> (Inl (HandlerThrew m s), c)
           | Gave r \<Rightarrow> (Inr (), c)))"

text \<open>
  The block under \<open>if (obj.method)\<close>. \<open>Promise.resolve(retval).then(...).catch(...)\<close>
  attaches the two callbacks below to what the handler returned; they run later.
\<close>

definition request_branch ::
  "platform \<Rightarrow> envelope \<Rightarrow> Client \<Rightarrow> (thrown + unit) \<times> Client" where
  "request_branch pf e c =
     (case lookup_handler pf (requestHandlers c) (property_key (method e)) of
        None \<Rightarrow>
          sendResult genericResult (id' e) JNull
            (RpcError MethodNotFound
               (''no handler is registered for method '' @ property_key (method e))) c
      | Some h \<Rightarrow>
          (case h e of
             Threw m s \<Rightarrow>
               sendResult genericResult (id' e) JNull
                 (RpcErrorData InternalError (''sync error: '' @ m) (JObj [(''stack'', JStr s)])) c
           | Gave r \<Rightarrow> (Inr (), c\<lparr>reactions := reactions c @ [(id' e, r)]\<rparr>)))"


definition catch_callback ::
  "int option \<Rightarrow> string \<Rightarrow> string \<Rightarrow> Client \<Rightarrow> (thrown + unit) \<times> Client" where
  "catch_callback i m s c =
     sendResult genericResult i JNull
       (RpcErrorData InternalError (''async error: '' @ m) (JObj [(''stack'', JStr s)])) c"

text \<open>The block under \<open>if (obj.result)\<close>.\<close>

definition result_branch :: "envelope \<Rightarrow> Client \<Rightarrow> (thrown + unit) \<times> Client" where
  "result_branch e c =
     (case lookup_promise c (id' e) of
        None \<Rightarrow> (Inr (), warn (DroppedResult (result e)) c)
      | Some p \<Rightarrow>
          (Inr (),
           delete_promise (id' e)
             (c\<lparr>promises := settle p (Fulfilled (result e)) (promises c)\<rparr>)))"

text \<open>
  The block under \<open>if (obj.error)\<close>: the source passes \<open>obj.result\<close> to \<open>reject\<close> and
  to the warning.
\<close>

definition error_branch :: "envelope \<Rightarrow> Client \<Rightarrow> (thrown + unit) \<times> Client" where
  "error_branch e c =
     (case lookup_promise c (id' e) of
        None \<Rightarrow> (Inr (), warn (DroppedError (result e)) c)
      | Some p \<Rightarrow>
          (Inr (),
           delete_promise (id' e)
             (c\<lparr>promises := settle p (Rejected (result e)) (promises c)\<rparr>)))"

text \<open>\<open>onReceiveRaw\<close> from the test of \<open>obj.jsonrpc\<close> on, for an object.\<close>

definition dispatch :: "platform \<Rightarrow> envelope \<Rightarrow> Client \<Rightarrow> (thrown + unit) \<times> Client" where
  "dispatch pf e c =
     (case differs_from_version (jsonrpc e) of
        Inl t \<Rightarrow> (Inl t, c)
      | Inr True \<Rightarrow>
          sendResult genericResult None JNull
            (RpcError InvalidRequest
               (''expected jsonrpc = '' @ [CHR 0x27] @ ''2.0'' @ [CHR 0x27] @ '', got ''
                  @ json_stringify pf (jsonrpc e))) c
      | Inr False \<Rightarrow>
          if \<not> truthy_num (id' e) then notification_branch pf e c
          else if truthy_str (method e) then request_branch pf e c
          else if truthy (result e) then result_branch e c
          else if truthy (error e) then error_branch e c
          else
            sendResult genericResult (id' e) JNull
              (RpcError InvalidRequest
                 (''has id but doesn'' @ [CHR 0x27] @ ''t have method, result, or error'')) c)"

text \<open>Reading a property of \<open>null\<close> throws a TypeError.\<close>

definition onReceiveRaw :: "platform \<Rightarrow> string \<Rightarrow> Client \<Rightarrow> (thrown + unit) \<times> Client" where
  "onReceiveRaw pf line c =
     (case json_parse pf line of
        Inl m \<Rightarrow> sendResult genericResult None JNull (RpcError ParseError m) c
      | Inr obj \<Rightarrow>
          if typeof obj \<noteq> ''object''
          then
            sendResult genericResult None JNull
              (RpcError InvalidRequest (''expected object, got '' @ typeof obj)) c
          else
            (case obj of
               PObject e \<Rightarrow> dispatch pf e c
             | _ \<Rightarrow> (Inl TypeError, c)))"

text \<open>The listener of the \<open>data\<close> event of the line splitter.\<close>

definition on_data :: "platform \<Rightarrow> nat \<Rightarrow> string \<Rightarrow> Client \<Rightarrow> (thrown + unit) \<times> Client" where
  "on_data pf s line c = onReceiveRaw pf line c"

section \<open>Sample inputs\<close>

text \<open>
  Lines a peer can send, with the objects they parse to, and a platform that parses
  exactly these lines; every other line is a syntax error.
\<close>

definition garbage_line :: string where
  "garbage_line = ''not json''"

definition result_zero_line :: string where
  \<open>result_zero_line = ''{"jsonrpc":"2.0","id":1,"result":0}''\<close>

definition result_zero :: envelope where
  "result_zero =
     \<lparr>jsonrpc = JStr ''2.0'', method = None, id' = Some 1, params = JUndefined,
      result = JNum 0, error = JUndefined\<rparr>"

definition version_line :: string where
  \<open>version_line = ''{"jsonrpc":"2.0","id":1,"result":{"version":"1.2.3"}}''\<close>

definition version_result :: envelope where
  "version_result =
     \<lparr>jsonrpc = JStr ''2.0'', method = None, id' = Some 1, params = JUndefined,
      result = JObj [(''version'', JStr ''1.2.3'')], error = JUndefined\<rparr>"

definition failure_line :: string where
  \<open>failure_line = ''{"jsonrpc":"2.0","id":1,"error":{"code":-32603,"message":"boom"}}''\<close>

definition failure :: envelope where
  "failure =
     \<lparr>jsonrpc = JStr ''2.0'', method = None, id' = Some 1, params = JUndefined,
      result = JUndefined,
      error = JObj [(''code'', JNum (- 32603)), (''message'', JStr ''boom'')]\<rparr>"

definition request_line :: string where
  \<open>request_line = ''{"jsonrpc":"2.0","id":7,"method":"Y","params":{}}''\<close>

definition request_Y :: envelope where
  "request_Y =
     \<lparr>jsonrpc = JStr ''2.0'', method = Some ''Y'', id' = Some 7, params = JObj [],
      result = JUndefined, error = JUndefined\<rparr>"

definition zero_id_line :: string where
  \<open>zero_id_line = ''{"jsonrpc":"2.0","id":0,"method":"Y","params":{}}''\<close>

definition zero_id :: envelope where
  "zero_id =
     \<lparr>jsonrpc = JStr ''2.0'', method = Some ''Y'', id' = Some 0, params = JObj [],
      result = JUndefined, error = JUndefined\<rparr>"

definition empty_method_line :: string where
  \<open>empty_method_line = ''{"jsonrpc":"2.0","id":7,"method":"","params":{}}''\<close>

definition empty_method :: envelope where
  "empty_method =
     \<lparr>jsonrpc = JStr ''2.0'', method = Some [], id' = Some 7, params = JObj [],
      result = JUndefined, error = JUndefined\<rparr>"

definition toString_line :: string where
  \<open>toString_line = ''{"jsonrpc":"2.0","id":7,"method":"toString","params":{}}''\<close>

definition request_toString :: envelope where
  "request_toString =
     \<lparr>jsonrpc = JStr ''2.0'', method = Some ''toString'', id' = Some 7, params = JObj [],
      result = JUndefined, error = JUndefined\<rparr>"

text \<open>
  Of the inherited properties the sample platform has \<open>toString\<close>:
  \<open>Object.prototype.toString\<close> called as a plain function returns
  \<open>[object Undefined]\<close>.
\<close>

definition sample_platform :: platform where
  "sample_platform =
     \<lparr>json_parse = (\<lambda>l.
        case map_of
               [(result_zero_line, result_zero), (version_line, version_result),
                (failure_line, failure), (request_line, request_Y),
                (zero_id_line, zero_id), (empty_method_line, empty_method),
                (toString_line, request_toString)] l of
          Some e \<Rightarrow> Inr (PObject e)
        | None \<Rightarrow> Inl ''Unexpected token''),
      json_stringify = (\<lambda>v. ''undefined''),
      inherited = [''toString'' \<mapsto> (\<lambda>e. Gave (Plain (JStr ''[object Undefined]'')))]\<rparr>"

text \<open>
  A client whose connection is open, the same client after one \<open>call\<close>, and a connected
  client with a request handler for \<open>Y\<close> and a notification handler for \<open>Log\<close>.
\<close>

definition connected_client :: Client where
  "connected_client = on_connect 0 (snd (connect ''127.0.0.1:4000'' new_Client))"

definition calling_client :: Client where
  "calling_client = snd (call (createRequest ''Version.Get'' (JObj [])) connected_client)"

definition echo_handler :: "envelope \<Rightarrow> invocation" where
  "echo_handler e = Gave (Plain (params e))"

definition failing_handler :: "envelope \<Rightarrow> invocation" where
  "failing_handler e = Threw ''boom'' ''Error: boom''"

definition serving_client :: Client where
  "serving_client =
     snd (onNotification sample_platform (createNotification ''Log'') echo_handler
            (snd (onRequest sample_platform (createRequest ''Y'') failing_handler
                    connected_client)))"

section \<open>The sample inputs, evaluated\<close>

lemmas sample_defs =
  garbage_line_def result_zero_line_def result_zero_def version_line_def version_result_def
  failure_line_def failure_def request_line_def request_Y_def zero_id_line_def zero_id_def
  empty_method_line_def empty_method_def toString_line_def request_toString_def
  sample_platform_def

lemma parse_garbage: "json_parse sample_platform garbage_line = Inl ''Unexpected token''"
  by (simp add: sample_defs)

lemma parse_result_zero:
  "json_parse sample_platform result_zero_line = Inr (PObject result_zero)"
  by (simp add: sample_defs)

lemma parse_failure: "json_parse sample_platform failure_line = Inr (PObject failure)"
  by (simp add: sample_defs)

lemma parse_version: "json_parse sample_platform version_line = Inr (PObject version_result)"
  by (simp add: sample_defs)


lemma parse_zero_id: "json_parse sample_platform zero_id_line = Inr (PObject zero_id)"
  by (simp add: sample_defs)



lemma inherited_sample:
  "inherited sample_platform ''Y'' = None" "inherited sample_platform ''Log'' = None"
  "inherited sample_platform ''toString'' = Some (\<lambda>e. Gave (Plain (JStr ''[object Undefined]'')))"
  by (simp_all add: sample_platform_def)

lemma connected_client_eq:
  "connected_client =
     \<lparr>socket = Some 0, resultPromises = Map.empty, requestHandlers = Map.empty,
      notificationHandlers = Map.empty, errorHandler = None, idSeed = 1,
      sockets = [\<lparr>address = ''127.0.0.1:4000'', written = [], ended = False, opener = 0\<rparr>],
      promises = [Fulfilled JUndefined], console = [], reactions = []\<rparr>"
  by (simp add: connected_client_def connect_def new_Client_def on_connect_def settle_def)

lemma calling_client_eq:
  "calling_client =
     \<lparr>socket = Some 0, resultPromises = [1 \<mapsto> 1], requestHandlers = Map.empty,
      notificationHandlers = Map.empty, errorHandler = None, idSeed = 2,
      sockets = [\<lparr>address = ''127.0.0.1:4000'',
                 written = [\<lparr>jsonrpc = JStr ''2.0'', method = Some ''Version.Get'',
                             id' = Some 1, params = JObj [], result = JUndefined,
                             error = JUndefined\<rparr>],
                 ended = False, opener = 0\<rparr>],
      promises = [Fulfilled JUndefined, Pending], console = [], reactions = []\<rparr>"
  by (simp add: calling_client_def connected_client_eq call_def createRequest_def generateID_def
      increment_def sendRaw_def differs_from_version_def update_at_def truthy_num_def
      store_promise_def)

lemma serving_client_eq:
  "serving_client =
     \<lparr>socket = Some 0, resultPromises = Map.empty,
      requestHandlers = [''Y'' \<mapsto> failing_handler],
      notificationHandlers = [''Log'' \<mapsto> echo_handler], errorHandler = None, idSeed = 2,
      sockets = [\<lparr>address = ''127.0.0.1:4000'', written = [], ended = False, opener = 0\<rparr>],
      promises = [Fulfilled JUndefined], console = [], reactions = []\<rparr>"
  by (simp add: serving_client_def connected_client_eq onRequest_def onNotification_def
      createRequest_def createNotification_def generateID_def increment_def property_key_def
      lookup_handler_def inherited_sample)

section \<open>A line that is not JSON\<close>

text \<open>
  C1 says that a line which fails to parse is answered with one Error Result, id
  \<open>null\<close>, code -32700 and the parser's message, and that nothing is raised. The code
  builds exactly that result and hands it to \<open>sendResult\<close>, which refuses a result
  without an id: for every such line and every state of the client \<open>onReceiveRaw\<close>
  throws the error "missing id in result", and nothing is written to the socket.
\<close>

theorem C1_parse_failure_throws:
  assumes "json_parse pf line = Inl m"
  shows "onReceiveRaw pf line c =
           (Inl (MissingIdInResult
                   \<lparr>jsonrpc = JStr ''2.0'', method = None, id' = None, params = JUndefined,
                    result = JUndefined, error = RpcError ParseError m\<rparr>), c)"
  using assms
  by (simp add: onReceiveRaw_def sendResult_def genericResult_def createResult_def
      RpcError_def truthy_num_def)

theorem C1_parse_failure_throws_witness:
  "json_parse sample_platform garbage_line = Inl ''Unexpected token'' \<and>
   onReceiveRaw sample_platform garbage_line connected_client =
     (Inl (MissingIdInResult
             \<lparr>jsonrpc = JStr ''2.0'', method = None, id' = None, params = JUndefined,
              result = JUndefined, error = RpcError ParseError ''Unexpected token''\<rparr>),
      connected_client)"
  using C1_parse_failure_throws [OF parse_garbage, of connected_client] parse_garbage by simp

section \<open>An Error for a pending call\<close>

text \<open>
  C2 says that an envelope with a truthy id and an error, for which a Pending Correlation
  exists, has the reject continuation invoked with the envelope's Error object and the
  entry removed. The code reaches this block only when \<open>obj.result\<close> is falsy, removes
  the entry, and calls \<open>reject\<close> with \<open>obj.result\<close>: the promise is rejected with
  that falsy value, never with the Error.
\<close>

theorem C2_error_rejects_with_result:
  assumes "json_parse pf line = Inr (PObject e)"
    and "differs_from_version (jsonrpc e) = Inr False"
    and "id' e = Some i" and "i \<noteq> 0"
    and "\<not> truthy_str (method e)" and "\<not> truthy (result e)" and "truthy (error e)"
    and "resultPromises c i = Some p"
  shows "onReceiveRaw pf line c =
           (Inr (), c\<lparr>promises := settle p (Rejected (result e)) (promises c),
                      resultPromises := (resultPromises c)(i := None)\<rparr>)"
  using assms
  by (simp add: onReceiveRaw_def dispatch_def truthy_num_def error_branch_def
      lookup_promise_def delete_promise_def)

theorem C2_error_rejects_with_result_witness:
  "json_parse sample_platform failure_line = Inr (PObject failure) \<and>
   differs_from_version (jsonrpc failure) = Inr False \<and> id' failure = Some 1 \<and> (1::int) \<noteq> 0 \<and>
   \<not> truthy_str (method failure) \<and> \<not> truthy (result failure) \<and> truthy (error failure) \<and>
   error failure = JObj [(''code'', JNum (- 32603)), (''message'', JStr ''boom'')] \<and>
   resultPromises calling_client 1 = Some 1 \<and> promises calling_client ! 1 = Pending \<and>
   promises (snd (onReceiveRaw sample_platform failure_line calling_client)) =
     [Fulfilled JUndefined, Rejected JUndefined] \<and>
   resultPromises (snd (onReceiveRaw sample_platform failure_line calling_client)) 1 = None"
proof -
  have h: "differs_from_version (jsonrpc failure) = Inr False" "id' failure = Some 1"
    "(1::int) \<noteq> 0" "\<not> truthy_str (method failure)" "\<not> truthy (result failure)"
    "truthy (error failure)" "resultPromises calling_client 1 = Some 1"
    by (simp_all add: failure_def differs_from_version_def truthy_str_def calling_client_eq)
  have k: "error failure = JObj [(''code'', JNum (- 32603)), (''message'', JStr ''boom'')]"
    "promises calling_client ! 1 = Pending"
    by (simp_all add: failure_def calling_client_eq)
  from C2_error_rejects_with_result [OF parse_failure h] parse_failure h k show ?thesis
    by (simp add: calling_client_eq settle_def failure_def)
qed

section \<open>A connection that cannot be opened\<close>

text \<open>
  C3 says that when opening the transport fails, the client ends Disconnected and the
  promise returned by \<open>connect\<close> settles with the failure. The client does stay
  Disconnected, but the \<open>error\<close> and \<open>close\<close> listeners return at once while
  \<open>this.socket\<close> is unset, and nothing calls \<open>reject\<close>: after both events the state is
  the one \<open>connect\<close> left, with the promise still pending.
\<close>

theorem C3_failed_connect_never_settles:
  assumes "socket c = None"
  shows "fst (connect a c) = Inr (length (promises c)) \<and>
         on_close (length (sockets c)) (on_error (length (sockets c)) m (snd (connect a c)))
           = snd (connect a c) \<and>
         socket (snd (connect a c)) = None \<and>
         promises (snd (connect a c)) ! length (promises c) = Pending"
  using assms by (simp add: connect_def on_error_def on_close_def)

theorem C3_failed_connect_never_settles_witness:
  "socket new_Client = None \<and>
   fst (connect ''127.0.0.1:1'' new_Client) = Inr 0 \<and>
   socket (on_close 0 (on_error 0 ''connect ECONNREFUSED 127.0.0.1:1''
             (snd (connect ''127.0.0.1:1'' new_Client)))) = None \<and>
   promises (on_close 0 (on_error 0 ''connect ECONNREFUSED 127.0.0.1:1''
               (snd (connect ''127.0.0.1:1'' new_Client)))) = [Pending]"
proof -
  have h: "socket new_Client = None" by (simp add: new_Client_def)
  from C3_failed_connect_never_settles
         [OF h, of "''127.0.0.1:1''" "''connect ECONNREFUSED 127.0.0.1:1''"] h
  show ?thesis by (simp add: new_Client_def connect_def)
qed

section \<open>A Result for a pending call\<close>

text \<open>
  A truthy result is delivered: the promise found under the id is resolved with the
  payload and the entry deleted, and a result with no entry is logged and dropped.
\<close>

lemma truthy_result_resolves:
  assumes "json_parse pf line = Inr (PObject e)"
    and "differs_from_version (jsonrpc e) = Inr False"
    and "id' e = Some i" and "i \<noteq> 0"
    and "\<not> truthy_str (method e)" and "truthy (result e)"
  shows "(resultPromises c i = Some p \<longrightarrow>
            onReceiveRaw pf line c =
              (Inr (), c\<lparr>promises := settle p (Fulfilled (result e)) (promises c),
                         resultPromises := (resultPromises c)(i := None)\<rparr>)) \<and>
         (resultPromises c i = None \<longrightarrow>
            onReceiveRaw pf line c =
              (Inr (), c\<lparr>console := console c @ [DroppedResult (result e)]\<rparr>))"
  using assms
  by (simp add: onReceiveRaw_def dispatch_def truthy_num_def result_branch_def
      lookup_promise_def delete_promise_def warn_def)

lemma truthy_result_resolves_example:
  "promises (snd (onReceiveRaw sample_platform version_line calling_client)) =
     [Fulfilled JUndefined, Fulfilled (JObj [(''version'', JStr ''1.2.3'')])] \<and>
   resultPromises (snd (onReceiveRaw sample_platform version_line calling_client)) 1 = None \<and>
   onReceiveRaw sample_platform version_line connected_client =
     (Inr (), connected_client
        \<lparr>console := [DroppedResult (JObj [(''version'', JStr ''1.2.3'')])]\<rparr>)"
proof -
  have h: "differs_from_version (jsonrpc version_result) = Inr False"
    "id' version_result = Some 1" "(1::int) \<noteq> 0"
    "\<not> truthy_str (method version_result)" "truthy (result version_result)"
    by (simp_all add: version_result_def differs_from_version_def truthy_str_def)
  have t: "resultPromises calling_client 1 = Some 1" "resultPromises connected_client 1 = None"
    by (simp_all add: calling_client_eq connected_client_eq)
  from truthy_result_resolves [OF parse_version h, of calling_client 1]
    truthy_result_resolves [OF parse_version h, of connected_client 1] t
  show ?thesis
    by (simp add: calling_client_eq connected_client_eq settle_def version_result_def)
qed

text \<open>
  C4 says that an envelope with an id and a result is looked up in the correlation table
  and, if an entry is there, resolves it with the payload and removes it, for any result
  value, falsy ones included. The code tests \<open>obj.result\<close> for truthiness: a result of
  \<open>0\<close>, \<open>false\<close>, the empty string or \<open>null\<close> passes by the result block, the table
  and the promises stay as they were, and the peer is sent the InvalidRequest error "has
  id but doesn't have method, result, or error".
\<close>

theorem C4_falsy_result_unanswered:
  assumes "json_parse pf line = Inr (PObject e)"
    and "differs_from_version (jsonrpc e) = Inr False"
    and "id' e = Some i" and "i \<noteq> 0"
    and "\<not> truthy_str (method e)" and "\<not> truthy (result e)" and "\<not> truthy (error e)"
    and "socket c = Some s" and "s < length (sockets c)"
  shows "onReceiveRaw pf line c =
           (Inr (),
            c\<lparr>sockets := (sockets c)
                 [s := (sockets c ! s)
                    \<lparr>written := written (sockets c ! s) @
                       [\<lparr>jsonrpc = JStr ''2.0'', method = None, id' = Some i,
                         params = JUndefined, result = JUndefined,
                         error = RpcError InvalidRequest
                           (''has id but doesn'' @ [CHR 0x27] @
                            ''t have method, result, or error'')\<rparr>]\<rparr>]\<rparr>)"
  using assms
  by (simp add: onReceiveRaw_def dispatch_def truthy_num_def sendResult_def genericResult_def
      createResult_def RpcError_def sendRaw_def differs_from_version_def update_at_def)

theorem C4_falsy_result_unanswered_witness:
  "json_parse sample_platform result_zero_line = Inr (PObject result_zero) \<and>
   differs_from_version (jsonrpc result_zero) = Inr False \<and>
   id' result_zero = Some 1 \<and> (1::int) \<noteq> 0 \<and> \<not> truthy_str (method result_zero) \<and>
   result result_zero = JNum 0 \<and> \<not> truthy (result result_zero) \<and>
   \<not> truthy (error result_zero) \<and>
   socket calling_client = Some 0 \<and> 0 < length (sockets calling_client) \<and>
   resultPromises calling_client 1 = Some 1 \<and> promises calling_client ! 1 = Pending \<and>
   fst (onReceiveRaw sample_platform result_zero_line calling_client) = Inr () \<and>
   promises (snd (onReceiveRaw sample_platform result_zero_line calling_client)) ! 1
     = Pending \<and>
   resultPromises (snd (onReceiveRaw sample_platform result_zero_line calling_client)) 1
     = Some 1 \<and>
   map error
     (written (sockets (snd (onReceiveRaw sample_platform result_zero_line calling_client)) ! 0))
     = [JUndefined,
        RpcError InvalidRequest
          (''has id but doesn'' @ [CHR 0x27] @ ''t have method, result, or error'')]"
proof -
  have h: "differs_from_version (jsonrpc result_zero) = Inr False"
    "id' result_zero = Some 1" "(1::int) \<noteq> 0" "\<not> truthy_str (method result_zero)"
    "\<not> truthy (result result_zero)" "\<not> truthy (error result_zero)"
    "socket calling_client = Some 0" "0 < length (sockets calling_client)"
    by (simp_all add: result_zero_def differs_from_version_def truthy_str_def calling_client_eq)
  have k: "result result_zero = JNum 0" "resultPromises calling_client 1 = Some 1"
    "promises calling_client ! 1 = Pending"
    by (simp_all add: result_zero_def calling_client_eq)
  from C4_falsy_result_unanswered [OF parse_result_zero h] parse_result_zero h k
  show ?thesis by (simp add: calling_client_eq)
qed

section \<open>Calling while disconnected\<close>

lemma createRequest_frame:
  "socket (snd (createRequest m p c)) = socket c"
  "resultPromises (snd (createRequest m p c)) = resultPromises c"
  by (simp_all add: createRequest_def generateID_def)

text \<open>
  C5: when \<open>call\<close> is invoked on a disconnected client, with a creator that only builds
  the request (it leaves the socket and the correlation table alone, as the creators
  made by \<open>createRequest\<close> do), the call fails with an error and the correlation table
  is what it was before the call. \<open>call\<close> is \<open>async\<close>, so the error is the rejection
  of the promise it returns.
\<close>

theorem C5_call_disconnected:
  assumes "socket c = None"
    and "socket (snd (creator c)) = socket c"
    and "resultPromises (snd (creator c)) = resultPromises c"
  shows "isl (fst (call creator c)) \<and>
         resultPromises (snd (call creator c)) = resultPromises c"
  using assms
  by (auto simp add: call_def sendRaw_def split: prod.splits)

theorem C5_call_disconnected_witness:
  "socket new_Client = None \<and>
   socket (snd (createRequest ''Version.Get'' (JObj []) new_Client)) = socket new_Client \<and>
   resultPromises (snd (createRequest ''Version.Get'' (JObj []) new_Client))
     = resultPromises new_Client \<and>
   fst (call (createRequest ''Version.Get'' (JObj [])) new_Client) = Inl SendOnDisconnected \<and>
   resultPromises (snd (call (createRequest ''Version.Get'' (JObj [])) new_Client)) = Map.empty"
proof -
  have h: "socket new_Client = None" by (simp add: new_Client_def)
  from C5_call_disconnected [of new_Client "createRequest ''Version.Get'' (JObj [])"]
    h createRequest_frame [of "''Version.Get''" "JObj []" new_Client]
  show ?thesis
    by (simp add: new_Client_def call_def createRequest_def generateID_def sendRaw_def
        truthy_num_def)
qed

section \<open>Generated ids\<close>

lemma generateIDs_exact:
  "- (2 ^ 53) \<le> idSeed c \<Longrightarrow> idSeed c + int n \<le> 2 ^ 53 + 1 \<Longrightarrow>
   generateIDs n c = map (\<lambda>k. idSeed c + int k) [0..<n]"
proof (induction n arbitrary: c)
  case 0
  show ?case by simp
next
  case (Suc n)
  have shift: "map (\<lambda>k. idSeed c + int k) [0..<Suc n] =
        idSeed c # map (\<lambda>k. idSeed c + 1 + int k) [0..<n]"
    by (simp add: upt_conv_Cons map_Suc_upt [symmetric] del: upt_Suc)
  show ?case
  proof (cases n)
    case 0
    then show ?thesis by (simp add: generateID_def)
  next
    case (Suc m)
    with Suc.prems have less: "idSeed c < 2 ^ 53" by simp
    with Suc.prems have inc: "increment (idSeed c) = idSeed c + 1"
      by (simp add: increment_def)
    from Suc.prems
    have "generateIDs n (c\<lparr>idSeed := idSeed c + 1\<rparr>) =
          map (\<lambda>k. idSeed c + 1 + int k) [0..<n]"
      using Suc.IH [of "c\<lparr>idSeed := idSeed c + 1\<rparr>"] by simp
    with shift inc show ?thesis by (simp add: generateID_def)
  qed
qed

text \<open>Once the seed has reached \<open>2 ^ 53\<close> every further id is \<open>2 ^ 53\<close>.\<close>

lemma generateIDs_nth:
  "- (2 ^ 53) \<le> idSeed c \<Longrightarrow> idSeed c \<le> 2 ^ 53 \<Longrightarrow> k < n \<Longrightarrow>
   generateIDs n c ! k = min (idSeed c + int k) (2 ^ 53)"
proof (induction n arbitrary: c k)
  case 0
  then show ?case by simp
next
  case (Suc n)
  show ?case
  proof (cases k)
    case 0
    with Suc.prems show ?thesis by (simp add: generateID_def)
  next
    case (Suc j)
    with Suc.prems have j: "j < n" by simp
    show ?thesis
    proof (cases "idSeed c < 2 ^ 53")
      case True
      with Suc.prems have inc: "increment (idSeed c) = idSeed c + 1"
        by (simp add: increment_def)
      from True Suc.prems j
      have "generateIDs n (c\<lparr>idSeed := idSeed c + 1\<rparr>) ! j
            = min (idSeed c + 1 + int j) (2 ^ 53)"
        using Suc.IH [of "c\<lparr>idSeed := idSeed c + 1\<rparr>" j] by simp
      with inc Suc show ?thesis by (simp add: generateID_def add.assoc)
    next
      case False
      with Suc.prems have top: "idSeed c = 2 ^ 53" by simp
      then have inc: "increment (idSeed c) = idSeed c"
        by (simp add: increment_def)
      from top j
      have "generateIDs n (c\<lparr>idSeed := idSeed c\<rparr>) ! j = min (idSeed c + int j) (2 ^ 53)"
        using Suc.IH [of "c\<lparr>idSeed := idSeed c\<rparr>" j] by simp
      with inc top Suc show ?thesis by (simp add: generateID_def)
    qed
  qed
qed

lemma sorted_exact: "sorted_wrt (<) (map (\<lambda>k. (a::int) + int k) [0..<n])"
  by (simp add: sorted_wrt_iff_nth_less)

text \<open>
  C6 says that the ids of successive calls of \<open>generateID\<close> never repeat. The seed is a
  double: of the first \<open>2 ^ 53 + 1\<close> ids of a new client the last two are both
  \<open>2 ^ 53\<close>, and a client whose seed is \<open>2 ^ 53 - 1\<close> produces
  \<open>2 ^ 53 - 1\<close>, \<open>2 ^ 53\<close>, \<open>2 ^ 53\<close>.
\<close>

theorem C6_ids_repeat_counterexample:
  "idSeed new_Client = 1 \<and>
   generateIDs (2 ^ 53 + 1) new_Client ! (2 ^ 53 - 1) = 2 ^ 53 \<and>
   generateIDs (2 ^ 53 + 1) new_Client ! (2 ^ 53) = 2 ^ 53 \<and>
   generateIDs 3 (new_Client\<lparr>idSeed := 2 ^ 53 - 1\<rparr>) = [2 ^ 53 - 1, 2 ^ 53, 2 ^ 53]"
proof -
  have s: "idSeed new_Client = 1" by (simp add: new_Client_def)
  have a: "generateIDs (2 ^ 53 + 1) new_Client ! (2 ^ 53 - 1) = 2 ^ 53"
    using generateIDs_nth [of new_Client "2 ^ 53 - 1" "2 ^ 53 + 1"] by (simp add: s)
  have b: "generateIDs (2 ^ 53 + 1) new_Client ! (2 ^ 53) = 2 ^ 53"
    using generateIDs_nth [of new_Client "2 ^ 53" "2 ^ 53 + 1"] by (simp add: s)
  have c: "generateIDs 3 (new_Client\<lparr>idSeed := 2 ^ 53 - 1\<rparr>) = [2 ^ 53 - 1, 2 ^ 53, 2 ^ 53]"
    by (simp add: numeral_3_eq_3 generateID_def increment_def)
  from s a b c show ?thesis by simp
qed

text \<open>
  C6, amended: the seed of a new client is 1, and from a seed of at least \<open>- 2 ^ 53\<close>
  the ids of \<open>n\<close> successive calls of \<open>generateID\<close> are the seed, the seed plus 1, and
  so on, strictly increasing and without a repetition, as long as none of them exceeds
  \<open>2 ^ 53\<close>. For a new client these are the first \<open>2 ^ 53\<close> ids, from 1 on.
\<close>

theorem C6_ids_up_to_2_53:
  assumes "- (2 ^ 53) \<le> idSeed c" and "idSeed c + int n \<le> 2 ^ 53 + 1"
  shows "generateIDs n c = map (\<lambda>k. idSeed c + int k) [0..<n] \<and>
         sorted_wrt (<) (generateIDs n c) \<and> distinct (generateIDs n c) \<and>
         idSeed new_Client = 1"
proof -
  from assms have e: "generateIDs n c = map (\<lambda>k. idSeed c + int k) [0..<n]"
    by (rule generateIDs_exact)
  have s: "sorted_wrt (<) (generateIDs n c)" unfolding e by (rule sorted_exact)
  then have d: "distinct (generateIDs n c)" by (simp add: strict_sorted_iff)
  from e s d show ?thesis by (simp add: new_Client_def)
qed

theorem C6_ids_up_to_2_53_witness:
  "- (2 ^ 53) \<le> idSeed new_Client \<and> idSeed new_Client + int 3 \<le> 2 ^ 53 + 1 \<and>
   generateIDs 3 new_Client = [1, 2, 3]"
proof -
  have h: "- (2 ^ 53) \<le> idSeed new_Client" "idSeed new_Client + int 3 \<le> 2 ^ 53 + 1"
    by (simp_all add: new_Client_def)
  from C6_ids_up_to_2_53 [OF h] h show ?thesis
    by (simp add: new_Client_def numeral_3_eq_3 upt_conv_Cons)
qed

section \<open>Registering a handler twice\<close>

text \<open>
  C7: for every method name, when the request registry already has a handler for it,
  \<open>onRequest\<close> throws at once and the registry is unchanged; when the notification
  registry already has one, \<open>onNotification\<close> throws at once and the client is
  unchanged.
\<close>

theorem C7_second_handler_throws:
  "(requestHandlers c m = Some h \<longrightarrow>
      fst (onRequest pf (createRequest m) h2 c) = Inl (SecondRequestHandler m) \<and>
      requestHandlers (snd (onRequest pf (createRequest m) h2 c)) = requestHandlers c) \<and>
   (notificationHandlers c m = Some g \<longrightarrow>
      onNotification pf (createNotification m) g2 c = (Inl (SecondNotificationHandler m), c))"
  by (simp add: onRequest_def onNotification_def createRequest_def createNotification_def
      generateID_def property_key_def lookup_handler_def)

theorem C7_second_handler_throws_witness:
  "requestHandlers serving_client ''Y'' = Some failing_handler \<and>
   fst (onRequest sample_platform (createRequest ''Y'') echo_handler serving_client)
     = Inl (SecondRequestHandler ''Y'') \<and>
   requestHandlers
     (snd (onRequest sample_platform (createRequest ''Y'') echo_handler serving_client)) ''Y''
     = Some failing_handler \<and>
   notificationHandlers serving_client ''Log'' = Some echo_handler \<and>
   onNotification sample_platform (createNotification ''Log'') failing_handler serving_client
     = (Inl (SecondNotificationHandler ''Log''), serving_client)"
proof -
  have h: "requestHandlers serving_client ''Y'' = Some failing_handler"
    "notificationHandlers serving_client ''Log'' = Some echo_handler"
    by (simp_all add: serving_client_eq)
  from C7_second_handler_throws
         [of serving_client "''Y''" failing_handler sample_platform echo_handler]
    C7_second_handler_throws
         [of serving_client "''Log''" _ sample_platform _ echo_handler failing_handler] h
  show ?thesis by simp
qed

section \<open>A request for an unknown method\<close>




section \<open>An id of 0\<close>

text \<open>
  C9: an envelope whose id is 0, or that has no id, is handled as a Notification: the
  dispatcher does what the notification block does and nothing else. No Result is
  written, no promise is settled, the correlation table is not touched and no request
  handler is run.
\<close>

theorem C9_falsy_id_is_notification:
  assumes "json_parse pf line = Inr (PObject e)"
    and "differs_from_version (jsonrpc e) = Inr False"
    and "id' e = Some 0 \<or> id' e = None"
  shows "onReceiveRaw pf line c = notification_branch pf e c \<and>
         sockets (snd (onReceiveRaw pf line c)) = sockets c \<and>
         promises (snd (onReceiveRaw pf line c)) = promises c \<and>
         resultPromises (snd (onReceiveRaw pf line c)) = resultPromises c \<and>
         reactions (snd (onReceiveRaw pf line c)) = reactions c"
  using assms
  by (auto simp add: onReceiveRaw_def dispatch_def truthy_num_def notification_branch_def
      warn_def split: option.splits invocation.splits)

theorem C9_falsy_id_is_notification_witness:
  "json_parse sample_platform zero_id_line = Inr (PObject zero_id) \<and>
   differs_from_version (jsonrpc zero_id) = Inr False \<and>
   (id' zero_id = Some 0 \<or> id' zero_id = None) \<and>
   method zero_id = Some ''Y'' \<and> requestHandlers serving_client ''Y'' = Some failing_handler \<and>
   onReceiveRaw sample_platform zero_id_line serving_client =
     (Inr (), serving_client\<lparr>console := [NoNotificationHandler zero_id]\<rparr>)"
proof -
  have h: "differs_from_version (jsonrpc zero_id) = Inr False"
    "id' zero_id = Some 0 \<or> id' zero_id = None"
    by (simp_all add: zero_id_def differs_from_version_def)
  have k: "method zero_id = Some ''Y''"
    "requestHandlers serving_client ''Y'' = Some failing_handler"
    by (simp_all add: zero_id_def serving_client_eq)
  from C9_falsy_id_is_notification [OF parse_zero_id h, of serving_client] parse_zero_id h k
  show ?thesis
    by (simp add: notification_branch_def property_key_def serving_client_eq warn_def
        lookup_handler_def inherited_sample)
qed

section \<open>notify\<close>

text \<open>
  C10: \<open>notify\<close> builds the notification and drops it. For every creator and every
  params the client after the call is the client before it: nothing is written to the
  socket and no table changes.
\<close>

theorem C10_notify_sends_nothing: "notify nc p c = c"
  by (simp add: notify_def)

end
